theory Spec2Isabelle
  imports Main "HOL-Library.Sublist"
begin

section \<open>JavaScript values\<close>

text \<open>
  The values the middleware puts into log fields and response bodies. Numbers are the
  integers (status codes, millisecond timestamps); \<open>JUndefined\<close> is the value of a
  property that is absent. An object literal is the list of its keys in the order the
  source writes them.
\<close>

datatype json =
    JUndefined
  | JNull
  | JBool bool
  | JNum int
  | JStr string
  | JArr "json list"
  | JObj "(string \<times> json) list"

text \<open>JavaScript's truthiness, as \<open>||\<close> and \<open>if\<close> test it.\<close>

fun truthy :: "json \<Rightarrow> bool" where
  "truthy JUndefined = False"
| "truthy JNull = False"
| "truthy (JBool b) = b"
| "truthy (JNum n) = (n \<noteq> 0)"
| "truthy (JStr s) = (s \<noteq> [])"
| "truthy (JArr xs) = True"
| "truthy (JObj kvs) = True"

text \<open>\<open>a || b\<close>: the left operand when it is truthy, else the right one.\<close>

definition or_else :: "json \<Rightarrow> json \<Rightarrow> json" where
  "or_else a b = (if truthy a then a else b)"

text \<open>Reading a property of an object: \<open>undefined\<close> when the key is absent.\<close>

definition get_prop :: "(string \<times> json) list \<Rightarrow> string \<Rightarrow> json" where
  "get_prop kvs k = (case map_of kvs k of None \<Rightarrow> JUndefined | Some v \<Rightarrow> v)"

text \<open>\<open>o?.k\<close>: \<open>undefined\<close> when the object itself is absent.\<close>

definition opt_chain :: "(string \<times> json) list option \<Rightarrow> string \<Rightarrow> json" where
  "opt_chain ob k = (case ob of None \<Rightarrow> JUndefined | Some kvs \<Rightarrow> get_prop kvs k)"

text \<open>\<open>n || d\<close> on an optional number: zero and \<open>undefined\<close> are falsy.\<close>

definition num_or :: "int option \<Rightarrow> int \<Rightarrow> int" where
  "num_or n d = (case n of None \<Rightarrow> d | Some x \<Rightarrow> if x \<noteq> 0 then x else d)"

definition opt_str :: "string option \<Rightarrow> json" where
  "opt_str s = (case s of None \<Rightarrow> JUndefined | Some x \<Rightarrow> JStr x)"

definition opt_num :: "int option \<Rightarrow> json" where
  "opt_num n = (case n of None \<Rightarrow> JUndefined | Some x \<Rightarrow> JNum x)"

text \<open>
  An optional property \<open>p?: T\<close> can be absent from the object, or present holding
  \<open>undefined\<close> or a value; \<open>'p' in obj\<close> tells the first case from the other two.
\<close>

datatype 'a optional = Absent | Present "'a option"

fun prop_in :: "'a optional \<Rightarrow> bool" where
  "prop_in Absent = False"
| "prop_in (Present v) = True"

fun prop_val :: "'a optional \<Rightarrow> 'a option" where
  "prop_val Absent = None"
| "prop_val (Present v) = v"

section \<open>The error, the request and the effects\<close>

text \<open>One entry of \<open>CustomError.validation\<close> (the variable \<open>v\<close> of the source).\<close>

record validation_entry =
  v_instancePath :: string
  v_message :: string
  v_schemaPath :: "string option"
  v_params :: "(string \<times> json) list option"

text \<open>
  \<open>CustomError\<close>. The message is optional here although \<open>Error\<close> declares it: the
  handler is also given plain objects cast to the error type, and guards every read but one
  with \<open>||\<close>.
\<close>

record custom_error =
  message :: "string option"
  stack :: "string option"
  statusCode :: "int optional"
  validation :: "validation_entry list option"

text \<open>The request, with the two properties the tracer adds to it.\<close>

record request =
  "method" :: string
  url :: string
  params :: json
  query :: json
  body :: json
  ip :: string
  headers :: "string \<rightharpoonup> string"
  startTime :: "int option"
  requestId :: "string option"

text \<open>\<open>config.NODE_ENV\<close>, an enumeration of three values.\<close>

datatype node_env = Development | Production | Test

datatype level = LError | LWarn | LInfo | LDebug

text \<open>
  What the middleware does to its collaborators, in the order it does it: a call of the
  logger, \<open>reply.header\<close>, \<open>reply.code\<close>, \<open>reply.send\<close>; and the exception that
  ends a run when a call throws, named by its error code.
\<close>

datatype event =
    Log level string json
  | Header string string
  | Code int
  | Send json
  | Throw string

section \<open>The error handler\<close>

definition json_of_entry :: "validation_entry \<Rightarrow> json" where
  "json_of_entry v = JObj
     [(''instancePath'', JStr (v_instancePath v)),
      (''message'', JStr (v_message v)),
      (''schemaPath'', opt_str (v_schemaPath v)),
      (''params'', case v_params v of None \<Rightarrow> JUndefined | Some kvs \<Rightarrow> JObj kvs)]"

definition json_of_validation :: "validation_entry list option \<Rightarrow> json" where
  "json_of_validation vs =
     (case vs of None \<Rightarrow> JUndefined | Some xs \<Rightarrow> JArr (map json_of_entry xs))"

text \<open>The \<open>logger.error('Request error', ...)\<close> call that opens the handler.\<close>

definition request_error_log :: "custom_error \<Rightarrow> request \<Rightarrow> event" where
  "request_error_log err req = Log LError ''Request error'' (JObj
     [(''error'', JObj
         [(''message'', opt_str (message err)),
          (''stack'', opt_str (stack err)),
          (''statusCode'', opt_num (prop_val (statusCode err))),
          (''validation'', json_of_validation (validation err))]),
      (''request'', JObj
         [(''method'', JStr (method req)),
          (''url'', JStr (url req)),
          (''params'', params req),
          (''query'', query req),
          (''body'', body req),
          (''ip'', JStr (ip req)),
          (''userAgent'', opt_str (headers req ''user-agent''))])])"

text \<open>The callback of \<open>err.validation.map\<close>.\<close>

definition detail :: "validation_entry \<Rightarrow> json" where
  "detail v = JObj
     [(''field'', or_else (JStr (v_instancePath v)) (opt_str (v_schemaPath v))),
      (''message'', JStr (v_message v)),
      (''provided'', opt_chain (v_params v) ''providedValue''),
      (''expected'', opt_chain (v_params v) ''allowedValues'')]"

text \<open>The message of the 500 envelope, gated by the environment.\<close>

definition server_error_message :: "node_env \<Rightarrow> custom_error \<Rightarrow> json" where
  "server_error_message env err =
     (if env = Production then JStr ''Something went wrong''
      else or_else (opt_str (message err)) (JStr ''Internal server error''))"

text \<open>
  \<open>reply.code(c).send(b)\<close>. The reply is the framework's \<open>FastifyReply\<close>, which is not
  part of the source: its \<open>code\<close> takes a status from 100 to 599, sets it and returns the
  reply, on which \<open>send\<close> is then called; for any other status it throws
  \<open>FST_ERR_BAD_STATUS_CODE\<close>, and \<open>send\<close> is not reached.
\<close>

definition code_send :: "int \<Rightarrow> json \<Rightarrow> event list" where
  "code_send c b =
     (if 100 \<le> c \<and> c \<le> 599 then [Code c, Send b]
      else [Throw ''FST_ERR_BAD_STATUS_CODE''])"

text \<open>\<open>reply.code(c).send({error, message})\<close>.\<close>

definition respond :: "int \<Rightarrow> string \<Rightarrow> json \<Rightarrow> event list" where
  "respond c category msg =
     code_send c (JObj [(''error'', JStr category), (''message'', msg)])"

text \<open>
  The \<open>switch\<close> on \<open>err.statusCode\<close>, entered when the property is in the error. A
  property holding \<open>undefined\<close> matches no \<open>case\<close> and takes the \<open>default\<close>.
\<close>

definition status_switch :: "node_env \<Rightarrow> custom_error \<Rightarrow> int option \<Rightarrow> event list" where
  "status_switch env err sc =
     (if sc = Some 400 then respond 400 ''Bad Request'' (opt_str (message err))
      else if sc = Some 401 then
        respond 401 ''Unauthorized''
          (or_else (opt_str (message err)) (JStr ''Authentication required''))
      else if sc = Some 403 then
        respond 403 ''Forbidden'' (or_else (opt_str (message err)) (JStr ''Access denied''))
      else if sc = Some 404 then
        respond 404 ''Not Found''
          (or_else (opt_str (message err)) (JStr ''Resource not found''))
      else if sc = Some 409 then
        respond 409 ''Conflict'' (or_else (opt_str (message err)) (JStr ''Resource conflict''))
      else if sc = Some 422 then
        respond 422 ''Unprocessable Entity''
          (or_else (opt_str (message err)) (JStr ''Request could not be processed''))
      else if sc = Some 429 then
        respond 429 ''Too Many Requests''
          (or_else (opt_str (message err)) (JStr ''Rate limit exceeded''))
      else
        respond (num_or sc 500) ''Internal Server Error'' (server_error_message env err))"

text \<open>
  \<open>errorHandler(error, request, reply)\<close>, with \<open>config.NODE_ENV\<close> as a parameter. The
  result is the sequence of calls the handler makes on the logger and on the reply, ended
  by the exception when \<open>reply.code\<close> throws.
\<close>

definition errorHandler :: "node_env \<Rightarrow> custom_error \<Rightarrow> request \<Rightarrow> event list" where
  "errorHandler env err req =
     request_error_log err req #
     (case validation err of
        Some vs \<Rightarrow>
          code_send 400 (JObj
            [(''error'', JStr ''Validation Error''),
             (''message'', JStr ''Request validation failed''),
             (''details'', JArr (map detail vs))])
      | None \<Rightarrow>
          (if prop_in (statusCode err)
           then status_switch env err (prop_val (statusCode err))
           else respond 500 ''Internal Server Error'' (server_error_message env err)))"

section \<open>The request tracer\<close>

text \<open>\<open>s.substr(start, len)\<close> for non-negative arguments.\<close>

definition substr :: "string \<Rightarrow> nat \<Rightarrow> nat \<Rightarrow> string" where
  "substr s start len = take len (drop start s)"

text \<open>
  The decimal rendering of an integer, as a template literal \<open>`${n}`\<close> gives it.
\<close>

definition digit :: "nat \<Rightarrow> char" where
  "digit d = ''0123456789'' ! d"

function string_of_nat :: "nat \<Rightarrow> string" where
  "string_of_nat n =
     (if n < 10 then [digit n] else string_of_nat (n div 10) @ [digit (n mod 10)])"
  by pat_completeness auto
termination
  by (relation "measure id") auto

declare string_of_nat.simps [simp del]

definition string_of_int :: "int \<Rightarrow> string" where
  "string_of_int i =
     (if i < 0 then CHR ''-'' # string_of_nat (nat (- i)) else string_of_nat (nat i))"

text \<open>
  The \<open>onRequest\<close> hook. \<open>now\<close> is what \<open>Date.now()\<close> returns and \<open>rnd36\<close> is the
  string \<open>Math.random().toString(36)\<close>: \<open>0\<close> for the number zero, else \<open>0.\<close> followed
  by base-36 digits. The hook stores the id and the start time in the request, sets the
  header and logs.
\<close>

definition onRequest :: "int \<Rightarrow> string \<Rightarrow> request \<Rightarrow> request \<times> event list" where
  "onRequest now rnd36 req =
     (let start = now;
          rid = substr rnd36 2 9
      in (req\<lparr>requestId := Some rid, startTime := Some start\<rparr>,
          [Header ''X-Request-ID'' rid,
           Log LInfo ''Incoming request'' (JObj
             [(''requestId'', JStr rid),
              (''method'', JStr (method req)),
              (''url'', JStr (url req)),
              (''ip'', JStr (ip req)),
              (''userAgent'', opt_str (headers req ''user-agent'')),
              (''contentType'', opt_str (headers req ''content-type'')),
              (''contentLength'', opt_str (headers req ''content-length'')),
              (''query'', query req),
              (''params'', params req)])]))"

text \<open>
  \<open>Date.now() - (request.startTime || Date.now())\<close>. The expression reads the clock
  twice when the start time is falsy: \<open>now1\<close> is the reading of the left operand, taken
  first, and \<open>now2\<close> the reading inside the parentheses, taken after it.
\<close>

definition duration :: "int \<Rightarrow> int \<Rightarrow> request \<Rightarrow> int" where
  "duration now1 now2 req = now1 - num_or (startTime req) now2"

text \<open>The reply as the hooks read it and as the calls on it change it.\<close>

record reply =
  reply_statusCode :: int
  reply_headers :: "string \<rightharpoonup> json"
  reply_sent :: "json list"

definition getHeader :: "reply \<Rightarrow> string \<Rightarrow> json" where
  "getHeader rep k = (case reply_headers rep k of None \<Rightarrow> JUndefined | Some v \<Rightarrow> v)"

fun apply_event :: "reply \<Rightarrow> event \<Rightarrow> reply" where
  "apply_event rep (Log l m f) = rep"
| "apply_event rep (Header k v) = rep\<lparr>reply_headers := (reply_headers rep)(k \<mapsto> JStr v)\<rparr>"
| "apply_event rep (Code c) = rep\<lparr>reply_statusCode := c\<rparr>"
| "apply_event rep (Send b) = rep\<lparr>reply_sent := reply_sent rep @ [b]\<rparr>"
| "apply_event rep (Throw e) = rep"

definition apply_events :: "reply \<Rightarrow> event list \<Rightarrow> reply" where
  "apply_events rep evs = foldl apply_event rep evs"

text \<open>The \<open>onResponse\<close> hook.\<close>

definition onResponse :: "int \<Rightarrow> int \<Rightarrow> request \<Rightarrow> reply \<Rightarrow> event list" where
  "onResponse now1 now2 req rep =
     [Log LInfo ''Request completed'' (JObj
        [(''requestId'', opt_str (requestId req)),
         (''method'', JStr (method req)),
         (''url'', JStr (url req)),
         (''statusCode'', JNum (reply_statusCode rep)),
         (''duration'', JStr (string_of_int (duration now1 now2 req) @ ''ms'')),
         (''contentLength'', or_else (getHeader rep ''content-length'') (JNum 0))])]"

text \<open>The \<open>onError\<close> hook.\<close>

definition onError :: "int \<Rightarrow> int \<Rightarrow> request \<Rightarrow> custom_error \<Rightarrow> event list" where
  "onError now1 now2 req err =
     [Log LError ''Request failed'' (JObj
        [(''requestId'', opt_str (requestId req)),
         (''method'', JStr (method req)),
         (''url'', JStr (url req)),
         (''error'', JObj
            [(''message'', opt_str (message err)),
             (''stack'', opt_str (stack err)),
             (''statusCode'', opt_num (prop_val (statusCode err)))]),
         (''duration'', JStr (string_of_int (duration now1 now2 req) @ ''ms''))])]"

section \<open>Observations\<close>

text \<open>
  What a run of the handler does to the reply: the status set and the body sent, or the
  exception thrown.
\<close>

fun is_log :: "event \<Rightarrow> bool" where
  "is_log (Log l m f) = True"
| "is_log (Header k v) = False"
| "is_log (Code c) = False"
| "is_log (Send b) = False"
| "is_log (Throw e) = False"

definition response :: "event list \<Rightarrow> event list" where
  "response evs = filter (\<lambda>ev. \<not> is_log ev) evs"

text \<open>The value a log event carries under a key of its fields.\<close>

fun log_field :: "string \<Rightarrow> event \<Rightarrow> json" where
  "log_field k (Log l m (JObj kvs)) = get_prop kvs k"
| "log_field k ev = JUndefined"

text \<open>The message of the first body a run sends.\<close>

fun sent_message :: "event list \<Rightarrow> json" where
  "sent_message [] = JUndefined"
| "sent_message (Send (JObj kvs) # evs) = get_prop kvs ''message''"
| "sent_message (ev # evs) = sent_message evs"

text \<open>The header a reply carries after the calls of a hook.\<close>

definition header_after :: "event list \<Rightarrow> reply \<Rightarrow> string \<Rightarrow> json option" where
  "header_after evs rep k = reply_headers (apply_events rep evs) k"

text \<open>Whether a value is a string in which the text occurs.\<close>

fun contains_text :: "json \<Rightarrow> string \<Rightarrow> bool" where
  "contains_text (JStr s) t = sublist t s"
| "contains_text j t = False"

section \<open>The table of the specification\<close>

text \<open>
  The category string and the default message the specification documents for a status
  code (its section 4.2). It documents no default for 400, whose message is the error's.
\<close>

definition category :: "int \<Rightarrow> string" where
  "category S =
     (if S = 400 then ''Bad Request''
      else if S = 401 then ''Unauthorized''
      else if S = 403 then ''Forbidden''
      else if S = 404 then ''Not Found''
      else if S = 409 then ''Conflict''
      else if S = 422 then ''Unprocessable Entity''
      else if S = 429 then ''Too Many Requests''
      else ''Internal Server Error'')"

definition documented_default :: "int \<Rightarrow> string option" where
  "documented_default S =
     (if S = 401 then Some ''Authentication required''
      else if S = 403 then Some ''Access denied''
      else if S = 404 then Some ''Resource not found''
      else if S = 409 then Some ''Resource conflict''
      else if S = 422 then Some ''Request could not be processed''
      else if S = 429 then Some ''Rate limit exceeded''
      else None)"

section \<open>Fixtures of the test suite\<close>

text \<open>The request and the reply the unit tests of the handler start from.\<close>

definition mockRequest :: request where
  "mockRequest = \<lparr>method = ''GET'', url = ''/test'', params = JObj [], query = JObj [],
     body = JObj [], ip = ''127.0.0.1'',
     headers = [''user-agent'' \<mapsto> ''test-agent''],
     startTime = None, requestId = None\<rparr>"

definition mockReply :: reply where
  "mockReply = \<lparr>reply_statusCode = 200, reply_headers = Map.empty, reply_sent = []\<rparr>"

text \<open>\<open>new Error('Something went wrong')\<close>, the generic error of the tests.\<close>

definition genericError :: custom_error where
  "genericError = \<lparr>message = Some ''Something went wrong'',
     stack = Some ''Error: Something went wrong'', statusCode = Absent, validation = None\<rparr>"

text \<open>\<open>new Error()\<close>: an error thrown without a message has the empty message.\<close>

definition emptyError :: custom_error where
  "emptyError = \<lparr>message = Some [], stack = Some ''Error'', statusCode = Absent,
     validation = None\<rparr>"

text \<open>An object cast to the error type that has a status code and nothing else.\<close>

definition bareStatus :: "int \<Rightarrow> custom_error" where
  "bareStatus S = \<lparr>message = None, stack = None, statusCode = Present (Some S),
     validation = None\<rparr>"

text \<open>
  The error of the test for the default message of 401, \<open>{message: '', statusCode}\<close>,
  at any status code.
\<close>

definition emptyMessage :: "int \<Rightarrow> custom_error" where
  "emptyMessage S = \<lparr>message = Some [], stack = None, statusCode = Present (Some S),
     validation = None\<rparr>"

text \<open>The test's error with the custom status code 418.\<close>

definition customError :: custom_error where
  "customError = \<lparr>message = Some ''Custom error message'', stack = None,
     statusCode = Present (Some 418), validation = None\<rparr>"

text \<open>The test's validation error.\<close>

definition validationError :: custom_error where
  "validationError = \<lparr>message = Some ''Validation failed'', stack = None,
     statusCode = Absent,
     validation = Some [\<lparr>v_instancePath = ''/email'', v_message = ''must be string'',
       v_schemaPath = Some ''#/properties/email/type'',
       v_params = Some [(''type'', JStr ''string'')]\<rparr>]\<rparr>"

section \<open>Shape of a run of the handler\<close>

lemma response_respond: "response (request_error_log err req # respond c cat msg) = respond c cat msg"
  by (simp add: response_def request_error_log_def respond_def code_send_def)

lemma respond_accepted:
  "100 \<le> c \<Longrightarrow> c \<le> 599 \<Longrightarrow>
   respond c cat msg = [Code c, Send (JObj [(''error'', JStr cat), (''message'', msg)])]"
  by (simp add: respond_def code_send_def)

lemma respond_refused:
  "c < 100 \<or> 599 < c \<Longrightarrow> respond c cat msg = [Throw ''FST_ERR_BAD_STATUS_CODE'']"
  by (auto simp: respond_def code_send_def)

lemma or_else_message:
  "or_else (opt_str m) (JStr d) = (if m = None \<or> m = Some [] then JStr d else opt_str m)"
  by (cases m) (auto simp: or_else_def opt_str_def)

lemma respond_shape:
  "(\<exists>c' b. respond c cat msg = [Code c', Send b]) \<or>
   respond c cat msg = [Throw ''FST_ERR_BAD_STATUS_CODE'']"
  by (simp add: respond_def code_send_def)

lemma status_switch_shape:
  "(\<exists>c b. status_switch env err sc = [Code c, Send b]) \<or>
   status_switch env err sc = [Throw ''FST_ERR_BAD_STATUS_CODE'']"
proof -
  have "\<exists>c cat msg. status_switch env err sc = respond c cat msg"
    unfolding status_switch_def by (auto intro!: exI)
  then obtain c cat msg where "status_switch env err sc = respond c cat msg"
    by blast
  with respond_shape [of c cat msg] show ?thesis
    by simp
qed

text \<open>
  Every run of the handler logs first; then it either sets one status and sends one body,
  or throws in \<open>reply.code\<close> with nothing set and nothing sent.
\<close>

lemma errorHandler_run:
  "(\<exists>c b. errorHandler env err req = [request_error_log err req, Code c, Send b]) \<or>
   errorHandler env err req = [request_error_log err req, Throw ''FST_ERR_BAD_STATUS_CODE'']"
proof (cases "validation err")
  case (Some vs)
  then show ?thesis by (simp add: errorHandler_def code_send_def)
next
  case None
  show ?thesis
  proof (cases "statusCode err")
    case Absent
    with None show ?thesis by (simp add: errorHandler_def respond_def code_send_def)
  next
    case (Present sc)
    with None status_switch_shape [of env err sc] show ?thesis
      by (auto simp: errorHandler_def)
  qed
qed

lemma duration_start_present:
  "startTime req = Some s \<Longrightarrow> s \<noteq> 0 \<Longrightarrow> duration now1 now2 req = now1 - s"
  by (simp add: duration_def num_or_def)

lemma duration_start_missing:
  "startTime req = None \<Longrightarrow> duration now1 now2 req = now1 - now2"
  by (simp add: duration_def num_or_def)

section \<open>The validation branch\<close>

text \<open>
  C1. An error that carries a non-empty validation list is answered with status 400 and the
  envelope \<open>Validation Error\<close> / \<open>Request validation failed\<close>, whose details hold, for
  each problem in order, the field (the instance path, or the schema path when the instance
  path is empty), the message, and the provided and allowed values read from the params
  (undefined when there are no params). A status code on the error changes nothing.
\<close>

theorem validation_error_400:
  assumes "validation err = Some vs" and "vs \<noteq> []"
  shows "response (errorHandler env (err\<lparr>statusCode := sc\<rparr>) req) =
     [Code 400,
      Send (JObj
        [(''error'', JStr ''Validation Error''),
         (''message'', JStr ''Request validation failed''),
         (''details'', JArr (map (\<lambda>v. JObj
            [(''field'', if v_instancePath v \<noteq> [] then JStr (v_instancePath v)
                         else opt_str (v_schemaPath v)),
             (''message'', JStr (v_message v)),
             (''provided'', case v_params v of None \<Rightarrow> JUndefined
                            | Some kvs \<Rightarrow> get_prop kvs ''providedValue''),
             (''expected'', case v_params v of None \<Rightarrow> JUndefined
                            | Some kvs \<Rightarrow> get_prop kvs ''allowedValues'')]) vs))])]"
  using assms
  by (simp add: errorHandler_def response_def request_error_log_def detail_def
      or_else_def opt_chain_def code_send_def)

theorem validation_error_400_witness:
  "validation validationError =
     Some [\<lparr>v_instancePath = ''/email'', v_message = ''must be string'',
       v_schemaPath = Some ''#/properties/email/type'',
       v_params = Some [(''type'', JStr ''string'')]\<rparr>] \<and>
   response (errorHandler Production (validationError\<lparr>statusCode := Present (Some 404)\<rparr>)
       mockRequest) =
     [Code 400,
      Send (JObj
        [(''error'', JStr ''Validation Error''),
         (''message'', JStr ''Request validation failed''),
         (''details'', JArr [JObj
            [(''field'', JStr ''/email''),
             (''message'', JStr ''must be string''),
             (''provided'', JUndefined),
             (''expected'', JUndefined)]])])]"
proof -
  have v: "validation validationError =
     Some [\<lparr>v_instancePath = ''/email'', v_message = ''must be string'',
       v_schemaPath = Some ''#/properties/email/type'',
       v_params = Some [(''type'', JStr ''string'')]\<rparr>]"
    by (simp add: validationError_def)
  have ne: "[\<lparr>v_instancePath = ''/email'', v_message = ''must be string'',
       v_schemaPath = Some ''#/properties/email/type'',
       v_params = Some [(''type'', JStr ''string'')]\<rparr>] \<noteq> []"
    by simp
  show ?thesis
    using v validation_error_400 [OF v ne, of Production "Present (Some 404)" mockRequest]
    by (simp add: get_prop_def)
qed

section \<open>The status codes with a category of their own\<close>

text \<open>
  C2. An error without a validation list whose status code \<open>S\<close> is one of 400, 401, 403,
  404, 409, 422 and 429 is answered with status \<open>S\<close> and the category of \<open>S\<close>. When its
  message is absent or empty the answer carries the default the specification documents for
  \<open>S\<close>; for 400, which has none, and for every message that is not empty, it carries the
  message of the error as it is.
\<close>

theorem tagged_status:
  assumes "validation err = None" and "statusCode err = Present (Some S)"
    and "S \<in> {400, 401, 403, 404, 409, 422, 429}"
  shows "response (errorHandler env err req) =
     [Code S,
      Send (JObj
        [(''error'', JStr (category S)),
         (''message'',
            if message err = None \<or> message err = Some []
            then (case documented_default S of
                    Some d \<Rightarrow> JStr d
                  | None \<Rightarrow> opt_str (message err))
            else opt_str (message err))])]"
proof -
  let ?m = "if message err = None \<or> message err = Some []
      then (case documented_default S of Some d \<Rightarrow> JStr d | None \<Rightarrow> opt_str (message err))
      else opt_str (message err)"
  have "errorHandler env err req = request_error_log err req # status_switch env err (Some S)"
    using assms(1,2) by (simp add: errorHandler_def)
  moreover have "status_switch env err (Some S) = respond S (category S) ?m"
    using assms(3)
    by (auto simp: status_switch_def category_def documented_default_def or_else_message)
  ultimately have "response (errorHandler env err req) = respond S (category S) ?m"
    by (simp only: response_respond)
  moreover have "100 \<le> S" and "S \<le> 599"
    using assms(3) by auto
  ultimately show ?thesis
    by (simp only: respond_accepted)
qed

theorem tagged_status_witness:
  "validation (bareStatus 404) = None \<and> statusCode (bareStatus 404) = Present (Some 404) \<and>
   (404::int) \<in> {400, 401, 403, 404, 409, 422, 429} \<and>
   response (errorHandler Development (bareStatus 404) mockRequest) =
     [Code 404,
      Send (JObj [(''error'', JStr ''Not Found''), (''message'', JStr ''Resource not found'')])]"
proof -
  have v: "validation (bareStatus 404) = None"
    by (simp add: bareStatus_def)
  have s: "statusCode (bareStatus 404) = Present (Some 404)"
    by (simp add: bareStatus_def)
  have m: "(404::int) \<in> {400, 401, 403, 404, 409, 422, 429}"
    by simp
  have n: "message (bareStatus 404) = None"
    by (simp add: bareStatus_def)
  show ?thesis
    using v s n tagged_status [OF v s m, of Development mockRequest]
    by (simp add: category_def documented_default_def)
qed

section \<open>Errors without a status code\<close>

text \<open>
  C3, as amended. An error with no validation list and no status code property is answered
  with status 500 and the category \<open>Internal Server Error\<close>. In production the message is
  the fixed string \<open>Something went wrong\<close>, whatever the error says; in any other
  environment it is the error's message when that is present and not empty, and
  \<open>Internal server error\<close> otherwise.
\<close>

theorem untagged_error_500:
  assumes "validation err = None" and "statusCode err = Absent"
  shows "response (errorHandler env err req) =
     [Code 500,
      Send (JObj
        [(''error'', JStr ''Internal Server Error''),
         (''message'',
            if env = Production then JStr ''Something went wrong''
            else if message err = None \<or> message err = Some []
            then JStr ''Internal server error''
            else opt_str (message err))])]"
proof -
  have "errorHandler env err req =
      request_error_log err req #
      respond 500 ''Internal Server Error'' (server_error_message env err)"
    using assms by (simp add: errorHandler_def)
  then have "response (errorHandler env err req) =
      respond 500 ''Internal Server Error'' (server_error_message env err)"
    by (simp add: response_respond)
  then show ?thesis
    by (simp add: respond_accepted server_error_message_def or_else_message)
qed

theorem untagged_error_500_witness:
  "validation genericError = None \<and> statusCode genericError = Absent \<and>
   response (errorHandler Test genericError mockRequest) =
     [Code 500,
      Send (JObj
        [(''error'', JStr ''Internal Server Error''),
         (''message'', JStr ''Something went wrong'')])]"
proof -
  have v: "validation genericError = None"
    by (simp add: genericError_def)
  have s: "statusCode genericError = Absent"
    by (simp add: genericError_def)
  have m: "message genericError = Some ''Something went wrong''"
    by (simp add: genericError_def)
  show ?thesis
    using v s untagged_error_500 [OF v s, of Test mockRequest]
    by (simp add: m opt_str_def)
qed

text \<open>
  C3 as it is written fails twice. Outside production an error with the empty message is
  not answered with its own message but with the default; and in production the test
  suite's own generic error, whose message is \<open>Something went wrong\<close>, is answered with
  a message that contains (is) the text of the original.
\<close>

theorem untagged_message_counterexample:
  "opt_str (message emptyError) = JStr [] \<and>
   sent_message (errorHandler Development emptyError mockRequest) =
     JStr ''Internal server error'' \<and>
   message genericError = Some ''Something went wrong'' \<and>
   contains_text (sent_message (errorHandler Production genericError mockRequest))
     ''Something went wrong''"
  by (simp add: errorHandler_def request_error_log_def respond_def code_send_def get_prop_def
      server_error_message_def or_else_def opt_str_def emptyError_def genericError_def)

section \<open>The correlation id\<close>

lemma substr_nonempty: "(substr r 2 9 \<noteq> []) = (2 < length r)"
  by (auto simp: substr_def)


text \<open>
  C4, as amended. After the \<open>onRequest\<close> hook the reply carries the header
  \<open>X-Request-ID\<close>; its value is the id stored in the request, and it is the id in the
  fields of the \<open>Incoming request\<close> event and of the \<open>Request completed\<close> and
  \<open>Request failed\<close> events logged later for that request. The id is the nine characters
  after the first two of the base-36 rendering of the random number, so it is not empty
  exactly when that rendering has more than two characters, that is, when the random number
  is not zero.
\<close>

theorem request_id_traced:
  "header_after (snd (onRequest now r req)) rep ''X-Request-ID'' = Some (JStr (substr r 2 9)) \<and>
   requestId (fst (onRequest now r req)) = Some (substr r 2 9) \<and>
   map (log_field ''requestId'') (filter is_log (snd (onRequest now r req))) =
     [JStr (substr r 2 9)] \<and>
   map (log_field ''requestId'') (onResponse now1 now2 (fst (onRequest now r req)) rep') =
     [JStr (substr r 2 9)] \<and>
   map (log_field ''requestId'') (onError now1 now2 (fst (onRequest now r req)) err) =
     [JStr (substr r 2 9)] \<and>
   ((substr r 2 9 \<noteq> []) = (2 < length r))"
  by (simp add: onRequest_def Let_def header_after_def apply_events_def onResponse_def
      onError_def get_prop_def opt_str_def substr_nonempty)

text \<open>
  C4 as it is written fails when \<open>Math.random()\<close> returns zero: the rendering is the one
  character \<open>0\<close>, nothing is left after its first two characters, and the header is set
  to the empty string.
\<close>

theorem request_id_empty_counterexample:
  "header_after (snd (onRequest 1700000000000 ''0'' mockRequest)) mockReply ''X-Request-ID'' =
     Some (JStr [])"
  by (simp add: onRequest_def Let_def header_after_def apply_events_def substr_def)

section \<open>Missing pieces\<close>

text \<open>
  C5. The handler never throws, substitutes defaults for missing pieces and sends one
  response. For the status code 400 the code substitutes nothing: the error of the test for
  the default of 401, \<open>message: ''\<close>, is answered at 400 with the empty message, while at
  401 (and at every other code) the default takes its place.
\<close>

theorem bad_request_without_message:
  "response (errorHandler Development (emptyMessage 400) mockRequest) =
     [Code 400, Send (JObj [(''error'', JStr ''Bad Request''), (''message'', JStr [])])] \<and>
   response (errorHandler Development (emptyMessage 401) mockRequest) =
     [Code 401,
      Send (JObj [(''error'', JStr ''Unauthorized''),
                  (''message'', JStr ''Authentication required'')])]"
  by (simp add: errorHandler_def emptyMessage_def status_switch_def respond_def
      code_send_def response_def request_error_log_def or_else_def opt_str_def)

section \<open>The duration\<close>

text \<open>
  C7. With no start time in the request the duration is to be zero and never negative.
  The code subtracts a second reading of the clock from the first one, so when the
  millisecond changes between the two readings both hooks log a duration of \<open>-1ms\<close>.
\<close>

theorem duration_negative_without_start:
  "startTime mockRequest = None \<and>
   duration 1700000000000 1700000000001 mockRequest = - 1 \<and>
   map (log_field ''duration'') (onResponse 1700000000000 1700000000001 mockRequest mockReply) =
     [JStr ''-1ms''] \<and>
   map (log_field ''duration'') (onError 1700000000000 1700000000001 mockRequest genericError) =
     [JStr ''-1ms'']"
proof -
  have s: "startTime mockRequest = None"
    by (simp add: mockRequest_def)
  have d: "duration 1700000000000 1700000000001 mockRequest = - 1"
    by (simp add: duration_start_missing [OF s])
  have t: "string_of_int (- 1) = ''-1''"
    by code_simp
  show ?thesis
    by (simp add: s d t onResponse_def onError_def get_prop_def)
qed

section \<open>The same error twice\<close>

text \<open>
  C8, as amended. The status and the body the handler sends depend on the error and on the
  environment only, not on the request: the same error submitted in two requests is answered
  with the same status and the same envelope. The two requests carry the same
  \<open>X-Request-ID\<close> exactly when the two random numbers drawn for them agree on the nine
  characters the id is cut from; nothing makes the two ids differ.
\<close>

theorem envelope_same_id_from_random:
  "response (errorHandler env err req1) = response (errorHandler env err req2) \<and>
   ((header_after (snd (onRequest n1 r1 req1)) rep1 ''X-Request-ID'' =
     header_after (snd (onRequest n2 r2 req2)) rep2 ''X-Request-ID'') =
    (substr r1 2 9 = substr r2 2 9))"
proof -
  have "response (errorHandler env err q) =
      tl (errorHandler env err q)" for q
    using errorHandler_run [of env err q]
    by (auto simp: response_def request_error_log_def)
  moreover have "tl (errorHandler env err req1) = tl (errorHandler env err req2)"
    by (simp add: errorHandler_def)
  ultimately show ?thesis
    by (simp add: onRequest_def Let_def header_after_def apply_events_def)
qed

text \<open>
  C8 as it is written fails when the random source returns the same number for both
  requests: both get the id \<open>4fzyo82mv\<close>.
\<close>

theorem request_id_repeats_counterexample:
  "header_after (snd (onRequest 1700000000000 ''0.4fzyo82mvyr'' mockRequest)) mockReply
     ''X-Request-ID'' =
   header_after (snd (onRequest 1700000000500 ''0.4fzyo82mvyr'' mockRequest)) mockReply
     ''X-Request-ID''"
  by (simp add: onRequest_def Let_def header_after_def apply_events_def)

section \<open>Other status codes\<close>

text \<open>
  C9, as amended. An error without a validation list whose status code is not zero and is
  none of 400, 401, 403, 404, 409, 422, 429 and 500 is passed to \<open>reply.code\<close> as it is.
  When the code is one the reply accepts, from 100 to 599 (418, say), the answer has that
  very status code and the \<open>Internal Server Error\<close> envelope whose message is gated by
  the environment. When it is not, \<open>reply.code\<close> throws: no status is set and no
  envelope is sent.
\<close>

theorem unrecognized_status_passthrough:
  assumes "validation err = None" and "statusCode err = Present (Some sc)"
    and "sc \<noteq> 0" and "sc \<notin> {400, 401, 403, 404, 409, 422, 429, 500}"
  shows "response (errorHandler env err req) =
     (if 100 \<le> sc \<and> sc \<le> 599
      then [Code sc,
            Send (JObj
              [(''error'', JStr ''Internal Server Error''),
               (''message'',
                  if env = Production then JStr ''Something went wrong''
                  else if message err = None \<or> message err = Some []
                  then JStr ''Internal server error''
                  else opt_str (message err))])]
      else [Throw ''FST_ERR_BAD_STATUS_CODE''])"
proof -
  have "errorHandler env err req =
      request_error_log err req #
      respond sc ''Internal Server Error'' (server_error_message env err)"
    using assms by (simp add: errorHandler_def status_switch_def num_or_def)
  then have r: "response (errorHandler env err req) =
      respond sc ''Internal Server Error'' (server_error_message env err)"
    by (simp add: response_respond)
  show ?thesis
  proof (cases "100 \<le> sc \<and> sc \<le> 599")
    case True
    then show ?thesis
      by (simp add: r respond_accepted server_error_message_def or_else_message)
  next
    case False
    then have "sc < 100 \<or> 599 < sc"
      by auto
    with False show ?thesis
      by (simp add: r respond_refused)
  qed
qed

theorem unrecognized_status_passthrough_witness:
  "validation customError = None \<and> statusCode customError = Present (Some 418) \<and>
   (418::int) \<noteq> 0 \<and> (418::int) \<notin> {400, 401, 403, 404, 409, 422, 429, 500} \<and>
   response (errorHandler Production customError mockRequest) =
     [Code 418,
      Send (JObj
        [(''error'', JStr ''Internal Server Error''),
         (''message'', JStr ''Something went wrong'')])] \<and>
   response (errorHandler Development customError mockRequest) =
     [Code 418,
      Send (JObj
        [(''error'', JStr ''Internal Server Error''),
         (''message'', JStr ''Custom error message'')])]"
proof -
  have v: "validation customError = None"
    by (simp add: customError_def)
  have s: "statusCode customError = Present (Some 418)"
    by (simp add: customError_def)
  have z: "(418::int) \<noteq> 0"
    by simp
  have n: "(418::int) \<notin> {400, 401, 403, 404, 409, 422, 429, 500}"
    by simp
  have m: "message customError = Some ''Custom error message''"
    by (simp add: customError_def)
  show ?thesis
    using v s unrecognized_status_passthrough [OF v s z n, of Production mockRequest]
      unrecognized_status_passthrough [OF v s z n, of Development mockRequest]
    by (simp add: m opt_str_def)
qed

text \<open>
  C9 as it is written fails at a status code the reply refuses: for the status code 1000
  the handler logs and throws, and neither the status 1000 nor an envelope reaches the
  reply.
\<close>

theorem unrecognized_status_refused_counterexample:
  "validation (bareStatus 1000) = None \<and>
   statusCode (bareStatus 1000) = Present (Some 1000) \<and>
   response (errorHandler Development (bareStatus 1000) mockRequest) =
     [Throw ''FST_ERR_BAD_STATUS_CODE''] \<and>
   reply_statusCode (apply_events mockReply
     (errorHandler Development (bareStatus 1000) mockRequest)) = 200 \<and>
   reply_sent (apply_events mockReply
     (errorHandler Development (bareStatus 1000) mockRequest)) = []"
  by (simp add: errorHandler_def bareStatus_def status_switch_def num_or_def respond_def
      code_send_def response_def request_error_log_def apply_events_def mockReply_def)

section \<open>The empty validation list\<close>

text \<open>
  C10. An error whose validation list is present and empty takes the validation branch all
  the same: status 400, \<open>Validation Error\<close>, \<open>Request validation failed\<close> and an
  empty array of details, whatever status code the error has.
\<close>

theorem empty_validation_400:
  "response (errorHandler env (err\<lparr>validation := Some [], statusCode := sc\<rparr>) req) =
     [Code 400,
      Send (JObj
        [(''error'', JStr ''Validation Error''),
         (''message'', JStr ''Request validation failed''),
         (''details'', JArr [])])]"
  by (simp add: errorHandler_def response_def request_error_log_def code_send_def)

end
